theory Spec2Isabelle
  imports Complex_Main
begin

section \<open>Data model\<close>

text \<open>
  The program works on numpy arrays. A one-dimensional array is a list of its elements,
  a two-dimensional array the list of its rows; an \<open>N\<close> by \<open>N\<close> array is a list
  of \<open>N\<close> rows of length \<open>N\<close> (\<open>square\<close>). Array elements on which the program does
  arithmetic are exact rationals: integer arrays hold integer-valued rationals, and a
  fractional coupling matrix is a matrix of fractions. Arithmetic is exact, so neither
  the wrap-around of 64-bit integer arrays nor the rounding of 64-bit floats is part of
  the model. Python's \<open>int(x)\<close> on a number truncates towards zero.

  The only exceptions the program can raise come from numpy: \<open>ValueError\<close> when the
  operand shapes of \<open>@\<close>, of a broadcast or of an array constructor do not fit, and
  \<open>IndexError\<close> when an index is out of range.
\<close>

datatype error = ValueError | IndexError

type_synonym vector = "rat list"
type_synonym matrix = "rat list list"

definition shape0 :: "'a list list \<Rightarrow> nat" where
  "shape0 J = length J"

definition shape1 :: "'a list list \<Rightarrow> nat" where
  "shape1 J = (case J of [] \<Rightarrow> 0 | r # _ \<Rightarrow> length r)"

definition square :: "nat \<Rightarrow> 'a list list \<Rightarrow> bool" where
  "square N J = (length J = N \<and> list_all (\<lambda>r. length r = N) J)"

definition py_int :: "rat \<Rightarrow> int" where
  "py_int x = (if 0 \<le> x then \<lfloor>x\<rfloor> else \<lceil>x\<rceil>)"

definition truthy :: "'a::zero \<Rightarrow> bool" where
  "truthy x = (x \<noteq> 0)"

definition getitem :: "'a list \<Rightarrow> nat \<Rightarrow> error + 'a" where
  "getitem xs i = (if i < length xs then Inr (xs ! i) else Inl IndexError)"

definition getitem2 :: "'a list list \<Rightarrow> nat \<Rightarrow> nat \<Rightarrow> error + 'a" where
  "getitem2 J i j =
     (if i < shape0 J \<and> j < shape1 J then Inr (J ! i ! j) else Inl IndexError)"



text \<open>
  \<open>v @ M\<close> for a vector and a matrix, and \<open>u @ v\<close> for two vectors. numpy checks the
  core dimensions first and raises \<open>ValueError\<close> when they differ.
\<close>

definition matmul_vm :: "vector \<Rightarrow> matrix \<Rightarrow> error + vector" where
  "matmul_vm v M =
     (if length v = shape0 M
      then Inr (map (\<lambda>j. sum_list (map2 (\<lambda>x r. x * r ! j) v M)) [0..<shape1 M])
      else Inl ValueError)"

definition matmul_vv :: "vector \<Rightarrow> vector \<Rightarrow> error + rat" where
  "matmul_vv u v =
     (if length u = length v then Inr (sum_list (map2 (*) u v)) else Inl ValueError)"

section \<open>Hamiltonian evaluation\<close>

definition to_spins :: "vector \<Rightarrow> vector" where
  "to_spins sigma = map (\<lambda>b. 2 * b - 1) sigma"

definition calculate_hamiltonian :: "vector \<Rightarrow> matrix \<Rightarrow> error + int" where
  "calculate_hamiltonian sigma J =
     (let spins = to_spins sigma in
      case matmul_vm spins J of
        Inl e \<Rightarrow> Inl e
      | Inr t \<Rightarrow>
          (case matmul_vv t spins of
             Inl e \<Rightarrow> Inl e
           | Inr energy \<Rightarrow> Inr (py_int energy)))"

definition calculate_energy_difference :: "vector \<Rightarrow> vector \<Rightarrow> matrix \<Rightarrow> error + int" where
  "calculate_energy_difference sigma_old sigma_new J =
     (case calculate_hamiltonian sigma_old J of
        Inl e \<Rightarrow> Inl e
      | Inr energy_old \<Rightarrow>
          (case calculate_hamiltonian sigma_new J of
             Inl e \<Rightarrow> Inl e
           | Inr energy_new \<Rightarrow> Inr (energy_new - energy_old)))"



section \<open>Flip decomposition\<close>

text \<open>
  \<open>np.logical_xor\<close> reads every element as a truth value (nonzero is true) and
  broadcasts a one-element operand over the other one; any other pair of different
  lengths raises \<open>ValueError\<close>. \<open>astype(int)\<close> turns the truth values into 0 and 1.
\<close>

definition bool_to_int :: "bool \<Rightarrow> int" where
  "bool_to_int b = (if b then 1 else 0)"

definition logical_xor :: "'a::zero list \<Rightarrow> 'b::zero list \<Rightarrow> error + bool list" where
  "logical_xor a b =
     (if length a = length b then Inr (map2 (\<lambda>x y. truthy x \<noteq> truthy y) a b)
      else if length a = 1 then Inr (map (\<lambda>y. truthy (hd a) \<noteq> truthy y) b)
      else if length b = 1 then Inr (map (\<lambda>x. truthy x \<noteq> truthy (hd b)) a)
      else Inl ValueError)"

definition logical_not :: "'a::zero list \<Rightarrow> bool list" where
  "logical_not a = map (\<lambda>x. \<not> truthy x) a"

definition generate_sigma_f ::
  "'a::zero list \<Rightarrow> 'b::zero list \<Rightarrow> error + (int list \<times> int list)" where
  "generate_sigma_f sigma_previous sigma_new =
     (case logical_xor sigma_previous sigma_new of
        Inl e \<Rightarrow> Inl e
      | Inr x \<Rightarrow>
          (let sigma_f = map bool_to_int x;
               sigma_f_inv = map bool_to_int (logical_not sigma_f)
           in Inr (sigma_f, sigma_f_inv)))"

text \<open>
  The loop of \<open>generate_sigma_c\<close> and of \<open>generate_sigma_r\<close> (the two bodies are the
  same text): the mask is read first, the new state only where the mask is set, and
  the result array, which has the length of the mask, is written at the same index.
\<close>

fun sigma_loop :: "'a::zero list \<Rightarrow> 'b::zero list \<Rightarrow> nat list \<Rightarrow> int list \<Rightarrow> error + int list" where
  "sigma_loop msk sigma_new [] out = Inr out"
| "sigma_loop msk sigma_new (i # rest) out =
     (case getitem msk i of
        Inl e \<Rightarrow> Inl e
      | Inr m \<Rightarrow>
          if truthy m then
            (case getitem sigma_new i of
               Inl e \<Rightarrow> Inl e
             | Inr b \<Rightarrow> sigma_loop msk sigma_new rest (out[i := (if truthy b then 1 else - 1)]))
          else sigma_loop msk sigma_new rest (out[i := 0]))"

definition generate_sigma_c :: "'a::zero list \<Rightarrow> 'b::zero list \<Rightarrow> int \<Rightarrow> error + int list" where
  "generate_sigma_c sigma_f sigma_new vector_size =
     sigma_loop sigma_f sigma_new [0..<nat vector_size] (replicate (length sigma_f) 0)"

definition generate_sigma_r :: "'a::zero list \<Rightarrow> 'b::zero list \<Rightarrow> int \<Rightarrow> error + int list" where
  "generate_sigma_r sigma_f_inv sigma_new vector_size =
     sigma_loop sigma_f_inv sigma_new [0..<nat vector_size] (replicate (length sigma_f_inv) 0)"

text \<open>
  What one pass of that loop body writes at index \<open>i\<close>.
\<close>

definition encode_at :: "'a::zero list \<Rightarrow> 'b::zero list \<Rightarrow> nat \<Rightarrow> int" where
  "encode_at msk sigma_new i =
     (if truthy (msk ! i) then (if truthy (sigma_new ! i) then 1 else - 1) else 0)"

section \<open>Column accumulation\<close>

text \<open>
  The inner loop over the rows of one column and the outer loop over the columns, as
  \<open>calculate_expected_output\<close> and \<open>energy_from_columns_full\<close> write them. The row
  and the column encoding are read by index, and so is \<open>J[col, row]\<close>.
\<close>

fun row_loop :: "vector \<Rightarrow> matrix \<Rightarrow> nat \<Rightarrow> nat list \<Rightarrow> rat \<Rightarrow> error + rat" where
  "row_loop sigma_r J col [] column_sum = Inr column_sum"
| "row_loop sigma_r J col (row # rest) column_sum =
     (case getitem sigma_r row of
        Inl e \<Rightarrow> Inl e
      | Inr r \<Rightarrow>
          (case getitem2 J col row of
             Inl e \<Rightarrow> Inl e
           | Inr j \<Rightarrow> row_loop sigma_r J col rest (column_sum + r * j)))"



fun full_col_loop :: "vector \<Rightarrow> matrix \<Rightarrow> nat list \<Rightarrow> nat list \<Rightarrow> rat \<Rightarrow> error + rat" where
  "full_col_loop sigma_bits J rows [] total_energy = Inr total_energy"
| "full_col_loop sigma_bits J rows (col # rest) total_energy =
     (case getitem sigma_bits col of
        Inl e \<Rightarrow> Inl e
      | Inr sigma_c_val \<Rightarrow>
          (case row_loop sigma_bits J col rows 0 of
             Inl e \<Rightarrow> Inl e
           | Inr column_contribution \<Rightarrow>
               full_col_loop sigma_bits J rows rest
                 (total_energy + sigma_c_val * column_contribution)))"

definition energy_from_columns_full :: "vector \<Rightarrow> matrix \<Rightarrow> int \<Rightarrow> error + int" where
  "energy_from_columns_full sigma_bits J vector_size =
     (case full_col_loop sigma_bits J [0..<nat vector_size] [0..<nat vector_size] 0 of
        Inl e \<Rightarrow> Inl e
      | Inr total_energy \<Rightarrow> Inr (py_int total_energy))"

definition verify_iterative_vs_hamiltonian ::
  "vector \<Rightarrow> vector \<Rightarrow> matrix \<Rightarrow> int \<Rightarrow> error + (bool \<times> int \<times> int)" where
  "verify_iterative_vs_hamiltonian sigma_old sigma_new J vector_size =
     (let spins_old = to_spins sigma_old;
          spins_new = to_spins sigma_new in
      case energy_from_columns_full spins_new J vector_size of
        Inl e \<Rightarrow> Inl e
      | Inr energy_new_cols \<Rightarrow>
          (case energy_from_columns_full spins_old J vector_size of
             Inl e \<Rightarrow> Inl e
           | Inr energy_old_cols \<Rightarrow>
               (let iterative_result = energy_new_cols - energy_old_cols in
                case calculate_energy_difference sigma_old sigma_new J of
                  Inl e \<Rightarrow> Inl e
                | Inr hamiltonian_result \<Rightarrow>
                    Inr (iterative_result = hamiltonian_result,
                         iterative_result, hamiltonian_result))))"

section \<open>Notions of the specification\<close>


definition binary :: "'a::zero_neq_one list \<Rightarrow> bool" where
  "binary sigma = list_all (\<lambda>b. b = 0 \<or> b = 1) sigma"



text \<open>
  Rebuilding the new configuration from the flip mask and the signs of the two
  encodings: a flipped position takes its bit from the column encoding, an unflipped
  one from the row encoding.
\<close>

definition reconstruct_new :: "int list \<Rightarrow> int list \<Rightarrow> int list \<Rightarrow> 'a::zero_neq_one list" where
  "reconstruct_new sigma_f sigma_c sigma_r =
     map (\<lambda>i. if sigma_f ! i = 1 then (if sigma_c ! i = 1 then 1 else 0)
               else (if sigma_r ! i = 1 then 1 else 0)) [0..<length sigma_f]"

section \<open>Sums of the loops and of the matrix products\<close>




lemma square_shape0: "square N J \<Longrightarrow> shape0 J = N"
  by (simp add: square_def shape0_def)










section \<open>Column accumulation against the matrix expression\<close>



section \<open>Energies of the matrix expression\<close>











text \<open>
  Claim C5. When the length of the configuration differs from the dimension \<open>N\<close> of
  the square matrix \<open>J\<close>, \<open>calculate_hamiltonian\<close> raises the shape error of
  \<open>@\<close> (numpy's \<open>ValueError\<close>) and returns no energy.
\<close>

theorem shape_mismatch_signalled:
  assumes "square N J" and "length sigma \<noteq> N"
  shows "calculate_hamiltonian sigma J = Inl ValueError"
  using assms(2)
  by (simp add: calculate_hamiltonian_def Let_def matmul_vm_def square_shape0 [OF assms(1)] to_spins_def)

text \<open>A configuration of length 3 against a two by two matrix.\<close>

theorem shape_mismatch_signalled_witness:
  "square 2 [[1, 2], [3, 5::rat]] \<and> length [1, 0, 1::rat] \<noteq> 2
   \<and> calculate_hamiltonian [1, 0, 1] [[1, 2], [3, 5]] = Inl ValueError"
proof -
  have sq: "square 2 [[1, 2], [3, 5::rat]]" by (simp add: square_def)
  have len: "length [1, 0, 1::rat] \<noteq> 2" by simp
  show ?thesis using shape_mismatch_signalled [OF sq len] sq by simp
qed
















section \<open>The consistency verifier\<close>





text \<open>An active size beyond the dimension makes the column loop read out of range.\<close>

lemma verify_iterative_out_of_range:
  "verify_iterative_vs_hamiltonian [1] [0] [[1]] 2 = Inl IndexError"
  by code_simp


section \<open>Flip mask and ternary encodings\<close>

lemma truthy_bool_to_int: "truthy (bool_to_int b) = b"
  by (simp add: truthy_def bool_to_int_def)

lemma generate_sigma_f_eq:
  assumes "length sigma_previous = length sigma_new"
  shows "generate_sigma_f sigma_previous sigma_new =
     Inr (map2 (\<lambda>x y. bool_to_int (truthy x \<noteq> truthy y)) sigma_previous sigma_new,
          map2 (\<lambda>x y. bool_to_int (truthy x = truthy y)) sigma_previous sigma_new)"
  using assms
  by (simp add: generate_sigma_f_def logical_xor_def logical_not_def Let_def
      truthy_bool_to_int comp_def case_prod_unfold)

text \<open>
  Claim C10. For two input vectors of equal length, with elements of any value,
  \<open>generate_sigma_f\<close> returns two vectors of that length whose elements are 0 or 1 and
  add up to 1 at every index; the flip mask is 1 exactly where one of the two inputs is
  nonzero and the other is zero.
\<close>

theorem generate_sigma_f_zero_one:
  fixes sigma_previous :: "'a::zero list" and sigma_new :: "'b::zero list"
  assumes "length sigma_previous = length sigma_new"
  shows "\<exists>sigma_f sigma_f_inv.
           generate_sigma_f sigma_previous sigma_new = Inr (sigma_f, sigma_f_inv)
         \<and> length sigma_f = length sigma_new \<and> length sigma_f_inv = length sigma_new
         \<and> (\<forall>i<length sigma_new.
               (sigma_f ! i = 0 \<or> sigma_f ! i = 1)
             \<and> (sigma_f_inv ! i = 0 \<or> sigma_f_inv ! i = 1)
             \<and> sigma_f ! i + sigma_f_inv ! i = 1
             \<and> (sigma_f ! i = 1 \<longleftrightarrow> (sigma_previous ! i \<noteq> 0) \<noteq> (sigma_new ! i \<noteq> 0)))"
  using assms
  by (simp add: generate_sigma_f_eq bool_to_int_def truthy_def)

text \<open>Inputs with elements outside 0 and 1.\<close>

theorem generate_sigma_f_zero_one_witness:
  "length [2, 0, - 3, 0 :: rat] = length [5, 7, 0, 0 :: rat]
   \<and> generate_sigma_f [2, 0, - 3, 0 :: rat] [5, 7, 0, 0 :: rat] = Inr ([0, 1, 1, 0], [1, 0, 0, 1])
   \<and> (\<exists>sigma_f sigma_f_inv.
           generate_sigma_f [2, 0, - 3, 0 :: rat] [5, 7, 0, 0 :: rat] = Inr (sigma_f, sigma_f_inv)
         \<and> (\<forall>i<length [5, 7, 0, 0 :: rat]. sigma_f ! i + sigma_f_inv ! i = 1))"
proof -
  have len: "length [2, 0, - 3, 0 :: rat] = length [5, 7, 0, 0 :: rat]" by simp
  have val: "generate_sigma_f [2, 0, - 3, 0 :: rat] [5, 7, 0, 0 :: rat] = Inr ([0, 1, 1, 0], [1, 0, 0, 1])"
    by code_simp
  show ?thesis
    using generate_sigma_f_zero_one [OF len] val by auto
qed

lemma sigma_loop_fold:
  assumes "\<forall>i\<in>set idxs. i < length msk \<and> i < length sigma_new"
  shows "sigma_loop msk sigma_new idxs out =
     Inr (fold (\<lambda>i acc. acc[i := encode_at msk sigma_new i]) idxs out)"
  using assms
  by (induction idxs arbitrary: out) (simp_all add: getitem_def encode_at_def)

lemma length_fold_update: "length (fold (\<lambda>i acc. acc[i := f i]) idxs out) = length out"
  by (induction idxs arbitrary: out) simp_all

lemma nth_fold_update_upt:
  assumes "n \<le> length out" and "i < length out"
  shows "fold (\<lambda>i acc. acc[i := f i]) [0..<n] out ! i = (if i < n then f i else out ! i)"
  using assms
proof (induction n)
  case 0
  then show ?case by simp
next
  case (Suc n)
  then show ?case
    by (auto simp: length_fold_update nth_list_update less_Suc_eq)
qed

lemma sigma_loop_upt:
  assumes "n \<le> length msk" and "n \<le> length sigma_new" and "length out = length msk"
  shows "\<exists>res. sigma_loop msk sigma_new [0..<n] out = Inr res \<and> length res = length msk
     \<and> (\<forall>i<length msk. res ! i = (if i < n then encode_at msk sigma_new i else out ! i))"
proof -
  let ?res = "fold (\<lambda>i acc. acc[i := encode_at msk sigma_new i]) [0..<n] out"
  have "sigma_loop msk sigma_new [0..<n] out = Inr ?res"
    by (rule sigma_loop_fold) (use assms in auto)
  moreover have "length ?res = length msk"
    by (simp add: length_fold_update assms(3))
  moreover have "\<forall>i<length msk. ?res ! i = (if i < n then encode_at msk sigma_new i else out ! i)"
    using assms by (simp add: nth_fold_update_upt)
  ultimately show ?thesis by blast
qed

lemma generate_sigma_c_in_range:
  assumes "length sigma_f = length sigma_new" and "vector_size \<le> int (length sigma_new)"
  shows "\<exists>sigma_c. generate_sigma_c sigma_f sigma_new vector_size = Inr sigma_c
     \<and> length sigma_c = length sigma_new
     \<and> (\<forall>i<length sigma_new.
           sigma_c ! i = (if int i < vector_size then encode_at sigma_f sigma_new i else 0))"
proof -
  have n: "nat vector_size \<le> length sigma_f" "nat vector_size \<le> length sigma_new"
    using assms by simp_all
  have "int i < vector_size \<longleftrightarrow> i < nat vector_size" for i by auto
  then show ?thesis
    using sigma_loop_upt [OF n, of "replicate (length sigma_f) 0"] assms(1)
    by (auto simp: generate_sigma_c_def)
qed

lemma generate_sigma_r_eq_c: "generate_sigma_r m s v = generate_sigma_c m s v"
  by (simp add: generate_sigma_r_def generate_sigma_c_def)


lemma decomposition_vectors:
  fixes sigma_previous :: "'a::zero list" and sigma_new :: "'b::zero list"
  assumes "length sigma_previous = length sigma_new" and "vector_size \<le> int (length sigma_new)"
  shows "\<exists>sigma_f sigma_f_inv sigma_c sigma_r.
           generate_sigma_f sigma_previous sigma_new = Inr (sigma_f, sigma_f_inv)
         \<and> generate_sigma_c sigma_f sigma_new vector_size = Inr sigma_c
         \<and> generate_sigma_r sigma_f_inv sigma_new vector_size = Inr sigma_r
         \<and> length sigma_f = length sigma_new \<and> length sigma_f_inv = length sigma_new
         \<and> length sigma_c = length sigma_new \<and> length sigma_r = length sigma_new
         \<and> (\<forall>i<length sigma_new.
               sigma_f ! i = bool_to_int (truthy (sigma_previous ! i) \<noteq> truthy (sigma_new ! i))
             \<and> sigma_f_inv ! i = bool_to_int (truthy (sigma_previous ! i) = truthy (sigma_new ! i))
             \<and> sigma_c ! i = (if int i < vector_size then encode_at sigma_f sigma_new i else 0)
             \<and> sigma_r ! i = (if int i < vector_size then encode_at sigma_f_inv sigma_new i else 0))"
proof -
  let ?sf = "map2 (\<lambda>x y. bool_to_int (truthy x \<noteq> truthy y)) sigma_previous sigma_new"
  let ?sfi = "map2 (\<lambda>x y. bool_to_int (truthy x = truthy y)) sigma_previous sigma_new"
  have f: "generate_sigma_f sigma_previous sigma_new = Inr (?sf, ?sfi)"
    by (rule generate_sigma_f_eq [OF assms(1)])
  have lf: "length ?sf = length sigma_new" and lfi: "length ?sfi = length sigma_new"
    using assms(1) by simp_all
  obtain sc where sc: "generate_sigma_c ?sf sigma_new vector_size = Inr sc"
      "length sc = length sigma_new"
      "\<forall>i<length sigma_new. sc ! i = (if int i < vector_size then encode_at ?sf sigma_new i else 0)"
    using generate_sigma_c_in_range [OF lf assms(2)] by blast
  obtain sr where sr: "generate_sigma_r ?sfi sigma_new vector_size = Inr sr"
      "length sr = length sigma_new"
      "\<forall>i<length sigma_new. sr ! i = (if int i < vector_size then encode_at ?sfi sigma_new i else 0)"
    using generate_sigma_c_in_range [OF lfi assms(2)] unfolding generate_sigma_r_eq_c by blast
  have nf: "\<forall>i<length sigma_new.
      ?sf ! i = bool_to_int (truthy (sigma_previous ! i) \<noteq> truthy (sigma_new ! i))
    \<and> ?sfi ! i = bool_to_int (truthy (sigma_previous ! i) = truthy (sigma_new ! i))"
    using assms(1) by simp
  show ?thesis
    using f sc sr lf lfi nf by blast
qed

text \<open>
  Claim C4. For two configurations of equal length and an active size of at most that
  length, the three generators return, and at every index exactly one of
  \<open>sigma_f\<close>, \<open>sigma_f_inv\<close> is 1, \<open>sigma_c\<close> and \<open>sigma_r\<close> are not both nonzero,
  and below the active size exactly one of \<open>sigma_c\<close>, \<open>sigma_r\<close> is nonzero. The
  configurations need not be binary.
\<close>

theorem decomposition_completeness:
  fixes sigma_previous :: "'a::zero list" and sigma_new :: "'b::zero list"
  assumes "length sigma_previous = length sigma_new" and "vector_size \<le> int (length sigma_new)"
  shows "\<exists>sigma_f sigma_f_inv sigma_c sigma_r.
           generate_sigma_f sigma_previous sigma_new = Inr (sigma_f, sigma_f_inv)
         \<and> generate_sigma_c sigma_f sigma_new vector_size = Inr sigma_c
         \<and> generate_sigma_r sigma_f_inv sigma_new vector_size = Inr sigma_r
         \<and> length sigma_f = length sigma_new \<and> length sigma_f_inv = length sigma_new
         \<and> length sigma_c = length sigma_new \<and> length sigma_r = length sigma_new
         \<and> (\<forall>i<length sigma_new.
               ((sigma_f ! i = 1) \<noteq> (sigma_f_inv ! i = 1))
             \<and> \<not> (sigma_c ! i \<noteq> 0 \<and> sigma_r ! i \<noteq> 0)
             \<and> (int i < vector_size \<longrightarrow> (sigma_c ! i \<noteq> 0) \<noteq> (sigma_r ! i \<noteq> 0)))"
proof -
  obtain sigma_f sigma_f_inv sigma_c sigma_r where
    gen: "generate_sigma_f sigma_previous sigma_new = Inr (sigma_f, sigma_f_inv)"
      "generate_sigma_c sigma_f sigma_new vector_size = Inr sigma_c"
      "generate_sigma_r sigma_f_inv sigma_new vector_size = Inr sigma_r"
      "length sigma_f = length sigma_new" "length sigma_f_inv = length sigma_new"
      "length sigma_c = length sigma_new" "length sigma_r = length sigma_new"
    and nth: "\<forall>i<length sigma_new.
               sigma_f ! i = bool_to_int (truthy (sigma_previous ! i) \<noteq> truthy (sigma_new ! i))
             \<and> sigma_f_inv ! i = bool_to_int (truthy (sigma_previous ! i) = truthy (sigma_new ! i))
             \<and> sigma_c ! i = (if int i < vector_size then encode_at sigma_f sigma_new i else 0)
             \<and> sigma_r ! i = (if int i < vector_size then encode_at sigma_f_inv sigma_new i else 0)"
    using decomposition_vectors [OF assms] by blast
  have "((sigma_f ! i = 1) \<noteq> (sigma_f_inv ! i = 1))
      \<and> \<not> (sigma_c ! i \<noteq> 0 \<and> sigma_r ! i \<noteq> 0)
      \<and> (int i < vector_size \<longrightarrow> (sigma_c ! i \<noteq> 0) \<noteq> (sigma_r ! i \<noteq> 0))"
    if "i < length sigma_new" for i
    using nth that by (simp add: encode_at_def truthy_bool_to_int) (simp add: bool_to_int_def)
  then show ?thesis using gen by blast
qed

text \<open>
  The configurations of the program's own sixth test, with an active size of 5 out of 8.
\<close>

theorem decomposition_completeness_witness:
  "length [1, 1, 0, 1, 0, 0, 1, 0 :: int] = length [1, 0, 1, 1, 0, 1, 0, 0 :: int]
   \<and> (5::int) \<le> int (length [1, 0, 1, 1, 0, 1, 0, 0 :: int])
   \<and> generate_sigma_f [1, 1, 0, 1, 0, 0, 1, 0 :: int] [1, 0, 1, 1, 0, 1, 0, 0 :: int]
       = Inr ([0, 1, 1, 0, 0, 1, 1, 0], [1, 0, 0, 1, 1, 0, 0, 1])
   \<and> generate_sigma_c [0, 1, 1, 0, 0, 1, 1, 0 :: int] [1, 0, 1, 1, 0, 1, 0, 0 :: int] 5
       = Inr [0, - 1, 1, 0, 0, 0, 0, 0]
   \<and> generate_sigma_r [1, 0, 0, 1, 1, 0, 0, 1 :: int] [1, 0, 1, 1, 0, 1, 0, 0 :: int] 5
       = Inr [1, 0, 0, 1, - 1, 0, 0, 0]
   \<and> (\<exists>sigma_f sigma_f_inv sigma_c sigma_r.
         generate_sigma_f [1, 1, 0, 1, 0, 0, 1, 0 :: int] [1, 0, 1, 1, 0, 1, 0, 0 :: int]
           = Inr (sigma_f, sigma_f_inv)
       \<and> generate_sigma_c sigma_f [1, 0, 1, 1, 0, 1, 0, 0 :: int] 5 = Inr sigma_c
       \<and> generate_sigma_r sigma_f_inv [1, 0, 1, 1, 0, 1, 0, 0 :: int] 5 = Inr sigma_r
       \<and> (\<forall>i<length [1, 0, 1, 1, 0, 1, 0, 0 :: int].
             ((sigma_f ! i = 1) \<noteq> (sigma_f_inv ! i = 1))
           \<and> \<not> (sigma_c ! i \<noteq> 0 \<and> sigma_r ! i \<noteq> 0)
           \<and> (int i < 5 \<longrightarrow> (sigma_c ! i \<noteq> 0) \<noteq> (sigma_r ! i \<noteq> 0))))"
proof -
  have len: "length [1, 1, 0, 1, 0, 0, 1, 0 :: int] = length [1, 0, 1, 1, 0, 1, 0, 0 :: int]"
    by simp
  have vs: "(5::int) \<le> int (length [1, 0, 1, 1, 0, 1, 0, 0 :: int])" by simp
  have f: "generate_sigma_f [1, 1, 0, 1, 0, 0, 1, 0 :: int] [1, 0, 1, 1, 0, 1, 0, 0 :: int]
       = Inr ([0, 1, 1, 0, 0, 1, 1, 0], [1, 0, 0, 1, 1, 0, 0, 1])" by code_simp
  have c: "generate_sigma_c [0, 1, 1, 0, 0, 1, 1, 0 :: int] [1, 0, 1, 1, 0, 1, 0, 0 :: int] 5
       = Inr [0, - 1, 1, 0, 0, 0, 0, 0]" by code_simp
  have r: "generate_sigma_r [1, 0, 0, 1, 1, 0, 0, 1 :: int] [1, 0, 1, 1, 0, 1, 0, 0 :: int] 5
       = Inr [1, 0, 0, 1, - 1, 0, 0, 0]" by code_simp
  from decomposition_completeness [OF len vs] len vs f c r show ?thesis by blast
qed

text \<open>
  Claim C8. For a configuration \<open>sigma_previous\<close> and a binary configuration
  \<open>sigma_new\<close> of the same length, with the active size equal to that length: at a
  flipped index \<open>sigma_new\<close> is 1 exactly when \<open>sigma_c\<close> is \<open>+1\<close>, at an unflipped
  index exactly when \<open>sigma_r\<close> is \<open>+1\<close>, and rebuilding from the mask and the two
  encodings gives \<open>sigma_new\<close> back.
\<close>

theorem round_trip:
  fixes sigma_previous :: "'a::zero list" and sigma_new :: "'b::zero_neq_one list"
  assumes "length sigma_previous = length sigma_new" and "binary sigma_new"
  shows "\<exists>sigma_f sigma_f_inv sigma_c sigma_r.
           generate_sigma_f sigma_previous sigma_new = Inr (sigma_f, sigma_f_inv)
         \<and> generate_sigma_c sigma_f sigma_new (int (length sigma_new)) = Inr sigma_c
         \<and> generate_sigma_r sigma_f_inv sigma_new (int (length sigma_new)) = Inr sigma_r
         \<and> (\<forall>i<length sigma_new.
               (sigma_f ! i = 1 \<longrightarrow> (sigma_new ! i = 1 \<longleftrightarrow> sigma_c ! i = 1))
             \<and> (sigma_f ! i \<noteq> 1 \<longrightarrow> (sigma_new ! i = 1 \<longleftrightarrow> sigma_r ! i = 1)))
         \<and> reconstruct_new sigma_f sigma_c sigma_r = sigma_new"
proof -
  have vs: "int (length sigma_new) \<le> int (length sigma_new)" by simp
  obtain sigma_f sigma_f_inv sigma_c sigma_r where
    gen: "generate_sigma_f sigma_previous sigma_new = Inr (sigma_f, sigma_f_inv)"
      "generate_sigma_c sigma_f sigma_new (int (length sigma_new)) = Inr sigma_c"
      "generate_sigma_r sigma_f_inv sigma_new (int (length sigma_new)) = Inr sigma_r"
    and len: "length sigma_f = length sigma_new"
    and nth: "\<forall>i<length sigma_new.
               sigma_f ! i = bool_to_int (truthy (sigma_previous ! i) \<noteq> truthy (sigma_new ! i))
             \<and> sigma_f_inv ! i = bool_to_int (truthy (sigma_previous ! i) = truthy (sigma_new ! i))
             \<and> sigma_c ! i = (if int i < int (length sigma_new) then encode_at sigma_f sigma_new i else 0)
             \<and> sigma_r ! i = (if int i < int (length sigma_new) then encode_at sigma_f_inv sigma_new i else 0)"
    using decomposition_vectors [OF assms(1) vs] by blast
  have bin: "sigma_new ! i = 0 \<or> sigma_new ! i = 1" if "i < length sigma_new" for i
    using assms(2) that by (simp add: binary_def list_all_length)
  have sign: "(sigma_f ! i = 1 \<longrightarrow> (sigma_new ! i = 1 \<longleftrightarrow> sigma_c ! i = 1))
      \<and> (sigma_f ! i \<noteq> 1 \<longrightarrow> (sigma_new ! i = 1 \<longleftrightarrow> sigma_r ! i = 1))"
    if "i < length sigma_new" for i
    using nth that bin [OF that]
    by (auto simp: encode_at_def truthy_bool_to_int) (auto simp: bool_to_int_def truthy_def)
  have "reconstruct_new sigma_f sigma_c sigma_r = sigma_new"
  proof (rule nth_equalityI)
    show "length (reconstruct_new sigma_f sigma_c sigma_r :: 'b list) = length sigma_new"
      by (simp add: reconstruct_new_def len)
  next
    fix i assume "i < length (reconstruct_new sigma_f sigma_c sigma_r :: 'b list)"
    then have i: "i < length sigma_new" by (simp add: reconstruct_new_def len)
    show "reconstruct_new sigma_f sigma_c sigma_r ! i = sigma_new ! i"
      using sign [OF i] bin [OF i] i by (auto simp: reconstruct_new_def len)
  qed
  then show ?thesis using gen sign by blast
qed


text \<open>The round trip on the configurations of the sixth test.\<close>

theorem round_trip_witness:
  "length [1, 1, 0, 1, 0, 0, 1, 0 :: int] = length [1, 0, 1, 1, 0, 1, 0, 0 :: int]
   \<and> binary [1, 0, 1, 1, 0, 1, 0, 0 :: int]
   \<and> generate_sigma_f [1, 1, 0, 1, 0, 0, 1, 0 :: int] [1, 0, 1, 1, 0, 1, 0, 0 :: int]
       = Inr ([0, 1, 1, 0, 0, 1, 1, 0], [1, 0, 0, 1, 1, 0, 0, 1])
   \<and> generate_sigma_c [0, 1, 1, 0, 0, 1, 1, 0 :: int] [1, 0, 1, 1, 0, 1, 0, 0 :: int]
         (int (length [1, 0, 1, 1, 0, 1, 0, 0 :: int]))
       = Inr [0, - 1, 1, 0, 0, 1, - 1, 0]
   \<and> generate_sigma_r [1, 0, 0, 1, 1, 0, 0, 1 :: int] [1, 0, 1, 1, 0, 1, 0, 0 :: int]
         (int (length [1, 0, 1, 1, 0, 1, 0, 0 :: int]))
       = Inr [1, 0, 0, 1, - 1, 0, 0, - 1]
   \<and> reconstruct_new [0, 1, 1, 0, 0, 1, 1, 0] [0, - 1, 1, 0, 0, 1, - 1, 0] [1, 0, 0, 1, - 1, 0, 0, - 1]
       = [1, 0, 1, 1, 0, 1, 0, 0 :: int]"
proof -
  have len: "length [1, 1, 0, 1, 0, 0, 1, 0 :: int] = length [1, 0, 1, 1, 0, 1, 0, 0 :: int]"
    by simp
  have bin: "binary [1, 0, 1, 1, 0, 1, 0, 0 :: int]" by (simp add: binary_def)
  have f: "generate_sigma_f [1, 1, 0, 1, 0, 0, 1, 0 :: int] [1, 0, 1, 1, 0, 1, 0, 0 :: int]
       = Inr ([0, 1, 1, 0, 0, 1, 1, 0], [1, 0, 0, 1, 1, 0, 0, 1])" by code_simp
  have c: "generate_sigma_c [0, 1, 1, 0, 0, 1, 1, 0 :: int] [1, 0, 1, 1, 0, 1, 0, 0 :: int]
         (int (length [1, 0, 1, 1, 0, 1, 0, 0 :: int]))
       = Inr [0, - 1, 1, 0, 0, 1, - 1, 0]" by code_simp
  have r: "generate_sigma_r [1, 0, 0, 1, 1, 0, 0, 1 :: int] [1, 0, 1, 1, 0, 1, 0, 0 :: int]
         (int (length [1, 0, 1, 1, 0, 1, 0, 0 :: int]))
       = Inr [1, 0, 0, 1, - 1, 0, 0, - 1]" by code_simp
  from round_trip [OF len bin] obtain sigma_f sigma_f_inv sigma_c sigma_r where
    g: "generate_sigma_f [1, 1, 0, 1, 0, 0, 1, 0 :: int] [1, 0, 1, 1, 0, 1, 0, 0 :: int]
         = Inr (sigma_f, sigma_f_inv)"
      "generate_sigma_c sigma_f [1, 0, 1, 1, 0, 1, 0, 0 :: int]
         (int (length [1, 0, 1, 1, 0, 1, 0, 0 :: int])) = Inr sigma_c"
      "generate_sigma_r sigma_f_inv [1, 0, 1, 1, 0, 1, 0, 0 :: int]
         (int (length [1, 0, 1, 1, 0, 1, 0, 0 :: int])) = Inr sigma_r"
    and rec: "reconstruct_new sigma_f sigma_c sigma_r = [1, 0, 1, 1, 0, 1, 0, 0 :: int]"
    by blast
  from g(1) f have sf: "sigma_f = [0, 1, 1, 0, 0, 1, 1, 0]" "sigma_f_inv = [1, 0, 0, 1, 1, 0, 0, 1]"
    by simp_all
  from g(2) c sf have sc: "sigma_c = [0, - 1, 1, 0, 0, 1, - 1, 0]" by simp
  from g(3) r sf have sr: "sigma_r = [1, 0, 0, 1, - 1, 0, 0, - 1]" by simp
  from rec sf sc sr have "reconstruct_new [0, 1, 1, 0, 0, 1, 1, 0] [0, - 1, 1, 0, 0, 1, - 1, 0]
      [1, 0, 0, 1, - 1, 0, 0, - 1] = [1, 0, 1, 1, 0, 1, 0, 0 :: int]" by simp
  with len bin f c r show ?thesis by blast
qed

end
